theory Spec2Isabelle
  imports Complex_Main
begin

section \<open>The item transaction store\<close>

text \<open>
  A shallow embedding of \<^verbatim>\<open>src/stores/itemTransactionStore.ts\<close>: the Pinia store
  \<^verbatim>\<open>useItemTransactionStore\<close>, its eight state refs, its fifteen actions and its three
  computed values.

  Conventions of the embedding:
  \<^item> a TypeScript \<^verbatim>\<open>number\<close> is a real number (NaN and the infinities are left out).
    The sums and products of \<open>totalAmount\<close> are rounded as binary64 arithmetic rounds
    them, and a total that leaves the finite range is \<open>None\<close>; the increment of a
    quantity by 1, exact in binary64 for the counts a selection holds (integers below
    \<open>2 ^ 53\<close>), is taken exactly;
  \<^item> an optional or nullable value is an \<open>option\<close>, \<open>None\<close> standing for
    \<^verbatim>\<open>undefined\<close> and \<^verbatim>\<open>null\<close>;
  \<^item> a payload the store never looks into, or one typed \<^verbatim>\<open>any\<close>, is a \<open>json\<close> value;
  \<^item> an action is a function of the store before the call; an action that awaits a
    request also takes the reply of that request and yields a \<open>run\<close>: the store after
    the call, what the promise settles to (\<open>Inl\<close> a thrown error, \<open>Inr\<close> the returned
    value) and the trace of loading writes, console lines and requests, in program order.
    No other action is interleaved while the request is in flight.
\<close>

subsection \<open>Values\<close>

type_synonym number = real

text \<open>
  The properties of an object are kept in the order in which JavaScript enumerates them;
  a property is looked up with \<open>map_of\<close>.
\<close>

datatype json =
    JUndefined
  | JNull
  | JBool bool
  | JNum number
  | JStr string
  | JArr "json list"
  | JObj "(string \<times> json) list"

text \<open>Truthiness, as tested by \<^verbatim>\<open>if (v)\<close>, \<^verbatim>\<open>v && w\<close> and \<^verbatim>\<open>v || w\<close>.\<close>

fun truthy :: "json \<Rightarrow> bool" where
  "truthy JUndefined = False"
| "truthy JNull = False"
| "truthy (JBool b) = b"
| "truthy (JNum n) = (n \<noteq> 0)"
| "truthy (JStr s) = (s \<noteq> [])"
| "truthy (JArr xs) = True"
| "truthy (JObj ps) = True"

text \<open>Truthiness of an optional number parameter such as \<^verbatim>\<open>branchId?: number\<close>.\<close>

fun truthy_number :: "number option \<Rightarrow> bool" where
  "truthy_number None = False"
| "truthy_number (Some n) = (n \<noteq> 0)"

text \<open>\<^verbatim>\<open>x || 0\<close> on an optional number.\<close>

fun or_zero :: "number option \<Rightarrow> number" where
  "or_zero None = 0"
| "or_zero (Some n) = (if n \<noteq> 0 then n else 0)"

text \<open>\<^verbatim>\<open>v?.items\<close>: only an object can own a property of that name.\<close>

fun optional_items :: "json \<Rightarrow> json" where
  "optional_items (JObj ps) = (case map_of ps ''items'' of Some v \<Rightarrow> v | None \<Rightarrow> JUndefined)"
| "optional_items v = JUndefined"

fun isArray :: "json \<Rightarrow> bool" where
  "isArray (JArr xs) = True"
| "isArray v = False"

fun typeof :: "json \<Rightarrow> string" where
  "typeof JUndefined = ''undefined''"
| "typeof JNull = ''object''"
| "typeof (JBool b) = ''boolean''"
| "typeof (JNum n) = ''number''"
| "typeof (JStr s) = ''string''"
| "typeof (JArr xs) = ''object''"
| "typeof (JObj ps) = ''object''"

text \<open>
  \<^verbatim>\<open>Object.values\<close>: the values of the own enumerable properties; \<open>None\<close> is the
  TypeError raised on \<^verbatim>\<open>null\<close> and \<^verbatim>\<open>undefined\<close>.
\<close>

fun Object_values :: "json \<Rightarrow> json list option" where
  "Object_values JUndefined = None"
| "Object_values JNull = None"
| "Object_values (JBool b) = Some []"
| "Object_values (JNum n) = Some []"
| "Object_values (JStr s) = Some (map (\<lambda>c. JStr [c]) s)"
| "Object_values (JArr xs) = Some xs"
| "Object_values (JObj ps) = Some (map snd ps)"

subsection \<open>Arrays\<close>

text \<open>\<^verbatim>\<open>Array.prototype.findIndex\<close>: the first index that satisfies the test, else -1.\<close>

fun findIndex :: "('a \<Rightarrow> bool) \<Rightarrow> 'a list \<Rightarrow> int" where
  "findIndex p [] = - 1"
| "findIndex p (x # xs) =
     (if p x then 0
      else (let i = findIndex p xs in if i < 0 then - 1 else i + 1))"

text \<open>\<^verbatim>\<open>xs[i]\<close>: \<open>None\<close> is the \<^verbatim>\<open>undefined\<close> read outside the array.\<close>

definition at_index :: "'a list \<Rightarrow> int \<Rightarrow> 'a option" where
  "at_index xs i = (if 0 \<le> i \<and> i < int (length xs) then Some (xs ! nat i) else None)"

text \<open>\<^verbatim>\<open>xs.splice(start, deleteCount)\<close> for \<^verbatim>\<open>start >= 0\<close>, with nothing inserted.\<close>

definition splice_out :: "'a list \<Rightarrow> int \<Rightarrow> nat \<Rightarrow> 'a list" where
  "splice_out xs start deleteCount = take (nat start) xs @ drop (nat start + deleteCount) xs"

text \<open>
  \<^verbatim>\<open>xs.find(p)\<close> returns a reference to the first element that satisfies the test, and
  an assignment to a field of it writes into the array. \<open>List.find\<close> gives the element;
  \<open>write_found p f xs\<close> is the array after the write \<open>f\<close> through that reference.
\<close>

fun write_found :: "('a \<Rightarrow> bool) \<Rightarrow> ('a \<Rightarrow> 'a) \<Rightarrow> 'a list \<Rightarrow> 'a list" where
  "write_found p f [] = []"
| "write_found p f (x # xs) = (if p x then f x # xs else x # write_found p f xs)"

subsection \<open>Data model\<close>

text \<open>
  Modelled from the spec: the types of \<^verbatim>\<open>src/types\<close>, which the store imports and
  which are not among the sources. \<open>Product\<close>, \<open>Customer\<close>, \<open>BranchWithWarehouses\<close>
  and \<open>ApiResponse\<close> carry the fields the store reads (an item with its solo and bulk
  reference prices, a counterparty with its type tag, the envelope
  \<^verbatim>\<open>{ status, data, message?, pagination? }\<close>); \<^verbatim>\<open>Warehouse\<close>, \<^verbatim>\<open>List\<close>,
  \<^verbatim>\<open>Pagination\<close>, \<^verbatim>\<open>PurchaseResponse\<close>, \<^verbatim>\<open>Transaction\<close> and
  \<^verbatim>\<open>RefundTransaction\<close> are opaque payloads, passed through unread, and are \<open>json\<close>
  values.
\<close>

record Product =
  id' :: number
  solo_unit_price :: "number option"
  bulk_unit_price :: "number option"

record Customer =
  type :: string

record BranchWithWarehouses =
  warehouses :: "json list"

record 'a ApiResponse =
  status :: string
  data :: 'a
  message :: "string option"
  pagination :: "json option"

datatype payment_type = cash | borrow

record Detail =
  item_id :: number
  quantity :: number
  unit_price :: number
  solo_unit_price :: number
  bulk_unit_price :: number

record TransactionForm =
  customer_id :: "number option"
  warehouse_id :: "number option"
  payment_type :: payment_type
  note' :: string
  details :: "Detail list"

record SelectedItem =
  item_id :: number
  item :: Product
  quantity :: number
  unit_price :: number
  solo_unit_price :: number
  bulk_unit_price :: number

record Store =
  loading :: bool
  list :: "json list"
  pagination :: "json option"
  transactions :: "json list"
  warehouses :: "json list"
  customers :: "Customer list"
  selectedItems :: "SelectedItem list"
  transactionForm :: TransactionForm

text \<open>The store as \<^verbatim>\<open>defineStore\<close> sets it up.\<close>

definition initial_store :: Store where
  "initial_store =
     \<lparr>loading = False, list = [], pagination = None, transactions = [], warehouses = [],
      customers = [], selectedItems = [],
      transactionForm =
        \<lparr>customer_id = None, warehouse_id = None, payment_type = cash, note' = [],
         details = []\<rparr>\<rparr>"

subsection \<open>Requests, replies and traces\<close>

datatype transaction_type = Purchase | Sell

datatype create_type = CreatePurchase | CreateSale

datatype customer_type = TypeSupplier | TypeCustomer

datatype currency = USD | IQD

datatype transaction_id = IdString string | IdNumber number

text \<open>
  Modelled from the spec: the table \<^verbatim>\<open>endPoints\<close> of \<^verbatim>\<open>src/endpoint\<close>, which is not
  among the sources (a set of named endpoints: warehouse-by-branch, customer list,
  transaction list, create, pay, receive, refund and return, item search). An endpoint
  is the entry used together with its arguments; \<^verbatim>\<open>transactionId.toString()\<close> is kept
  as the id itself.
\<close>

datatype endpoint =
    branchWarehouses number
  | customer_list
  | transaction_list transaction_type
  | transaction_one transaction_id
  | transaction_create transaction_type
  | transaction_paySupplier
  | transaction_receiveCustomer
  | transaction_refund
  | transaction_freeding transaction_id
  | specialwarehouseItems number
  | item_list

datatype http_method = GET | POST | PUT

datatype query_value = QText string | QNumber number | QEncoded string

record request =
  verb :: http_method
  url :: endpoint
  query :: "(string \<times> query_value) list"
  body :: "json option"

datatype error = Error string

datatype 'a reply = Rejected error | Resolved "'a ApiResponse"

datatype logged = LogError error | LogMessage "string option"

datatype event =
    SetLoading bool
  | ConsoleWarn string
  | ConsoleError string logged
  | HttpCall request

record 'r run =
  final :: Store
  outcome :: "error + 'r"
  trace :: "event list"

definition calls :: "event list \<Rightarrow> request list" where
  "calls evs = concat (map (\<lambda>e. case e of HttpCall r \<Rightarrow> [r] | _ \<Rightarrow> []) evs)"

subsection \<open>Actions on the selection and the form\<close>

definition resetForm :: "Store \<Rightarrow> Store" where
  "resetForm s =
     s\<lparr>transactionForm :=
         \<lparr>customer_id = None, warehouse_id = None, payment_type = cash, note' = [],
          details = []\<rparr>,
       selectedItems := []\<rparr>"

definition addSelectedItem :: "Product \<Rightarrow> Store \<Rightarrow> Store" where
  "addSelectedItem itm s =
     (let existingIndex = findIndex (\<lambda>si. item_id si = id' itm) (selectedItems s) in
      if existingIndex \<ge> 0 then
        (case at_index (selectedItems s) existingIndex of
           Some existingItem \<Rightarrow>
             s\<lparr>selectedItems :=
                 (selectedItems s)
                   [nat existingIndex := existingItem\<lparr>quantity := quantity existingItem + 1\<rparr>]\<rparr>
         | None \<Rightarrow> s)
      else
        s\<lparr>selectedItems :=
            selectedItems s @
              [\<lparr>item_id = id' itm, item = itm, quantity = 1,
                unit_price = or_zero (Product.solo_unit_price itm),
                solo_unit_price = or_zero (Product.solo_unit_price itm),
                bulk_unit_price = or_zero (Product.bulk_unit_price itm)\<rparr>]\<rparr>)"

definition removeSelectedItem :: "number \<Rightarrow> Store \<Rightarrow> Store" where
  "removeSelectedItem itemId s =
     (let index = findIndex (\<lambda>si. item_id si = itemId) (selectedItems s) in
      if index \<ge> 0 then s\<lparr>selectedItems := splice_out (selectedItems s) index 1\<rparr> else s)"

definition updateSelectedItemQuantity :: "number \<Rightarrow> number \<Rightarrow> Store \<Rightarrow> Store" where
  "updateSelectedItemQuantity itemId qty s =
     (case find (\<lambda>si. item_id si = itemId) (selectedItems s) of
        Some found \<Rightarrow>
          if qty > 0 then
            s\<lparr>selectedItems :=
                write_found (\<lambda>si. item_id si = itemId) (\<lambda>si. si\<lparr>quantity := qty\<rparr>)
                  (selectedItems s)\<rparr>
          else s
      | None \<Rightarrow> s)"

definition updateSelectedItemPrice :: "number \<Rightarrow> number \<Rightarrow> Store \<Rightarrow> Store" where
  "updateSelectedItemPrice itemId price s =
     (case find (\<lambda>si. item_id si = itemId) (selectedItems s) of
        Some found \<Rightarrow>
          if price \<ge> 0 then
            s\<lparr>selectedItems :=
                write_found (\<lambda>si. item_id si = itemId) (\<lambda>si. si\<lparr>unit_price := price\<rparr>)
                  (selectedItems s)\<rparr>
          else s
      | None \<Rightarrow> s)"

subsection \<open>Binary64 arithmetic\<close>

text \<open>
  JavaScript computes \<^verbatim>\<open>a + b\<close> and \<^verbatim>\<open>a * b\<close> on numbers as IEEE 754 binary64
  does: the exact result, rounded to the nearest binary64 number, to the one with the even
  significand when two are equally near, and to an infinity when the rounded result
  reaches \<open>2 ^ 1024\<close>.

  A finite binary64 number is \<open>m * 2 ^ e\<close> with \<open>\<bar>m\<bar> < 2 ^ 53\<close> and
  \<open>- 1074 \<le> e \<le> 971\<close>. Around a magnitude \<open>a\<close> these numbers form a grid of step
  \<open>2 ^ e\<close>, where \<open>e\<close> is the largest exponent in that range with \<open>2 ^ (e + 52) \<le> a\<close>, or
  \<open>- 1074\<close> if there is none; \<open>grid_exponent 2045 a\<close> finds it, trying \<open>971\<close> first.
\<close>

definition round_half_even :: "real \<Rightarrow> int" where
  "round_half_even y =
     (let n = \<lfloor>y\<rfloor>; r = y - of_int n in
      if r < 1 / 2 then n
      else if 1 / 2 < r then n + 1
      else if even n then n else n + 1)"

fun grid_exponent :: "nat \<Rightarrow> real \<Rightarrow> int" where
  "grid_exponent 0 a = - 1074"
| "grid_exponent (Suc n) a =
     (if 2 powi (int n - 1021) \<le> a then int n - 1073 else grid_exponent n a)"

text \<open>The rounding of an exact result; \<open>None\<close> is the overflow to an infinity.\<close>

definition binary64 :: "real \<Rightarrow> number option" where
  "binary64 x =
     (let e = grid_exponent 2045 \<bar>x\<bar>;
          y = of_int (round_half_even (x / 2 powi e)) * 2 powi e
      in if \<bar>y\<bar> < 2 powi 1024 then Some y else None)"

text \<open>The finite binary64 numbers are the reals that rounding leaves as they are.\<close>

definition is_binary64 :: "real \<Rightarrow> bool" where
  "is_binary64 x \<longleftrightarrow> binary64 x = Some x"

subsection \<open>Computed values\<close>

text \<open>
  \<^verbatim>\<open>selectedItems.value.reduce((total, item) => total + (item.quantity * item.unit_price), 0)\<close>:
  from 0, in the order of the list, the rounded product is added to the total and the sum
  is rounded. Once a product or a sum has overflowed the total is an infinity or NaN to
  the end: \<open>None\<close>.
\<close>

definition totalAmount :: "Store \<Rightarrow> number option" where
  "totalAmount s =
     foldl
       (\<lambda>total itm.
          case total of
            None \<Rightarrow> None
          | Some t \<Rightarrow>
              (case binary64 (quantity itm * unit_price itm) of
                 None \<Rightarrow> None
               | Some p \<Rightarrow> binary64 (t + p)))
       (Some 0) (selectedItems s)"

definition supplierCustomers :: "Store \<Rightarrow> Customer list" where
  "supplierCustomers s = filter (\<lambda>customer. type customer = ''supplier'') (customers s)"

definition regularCustomers :: "Store \<Rightarrow> Customer list" where
  "regularCustomers s = filter (\<lambda>customer. type customer = ''customer'') (customers s)"

subsection \<open>Actions that issue a request\<close>

text \<open>
  Every such action has the shape
  \<^verbatim>\<open>try { loading = true; ...await api...; ... } catch (error) { ... } finally { loading = false }\<close>.
  A rejected request enters the \<^verbatim>\<open>catch\<close> block; the \<^verbatim>\<open>finally\<close> block runs on
  every path, also after \<^verbatim>\<open>return\<close> and \<^verbatim>\<open>throw\<close>.
\<close>

definition fetchBranchWarehouses ::
  "number option \<Rightarrow> BranchWithWarehouses reply \<Rightarrow> Store \<Rightarrow> unit run" where
  "fetchBranchWarehouses branchId reply s =
     (if \<not> truthy_number branchId then
        \<lparr>final = s\<lparr>loading := True, warehouses := [], loading := False\<rparr>,
         outcome = Inr (),
         trace =
           [SetLoading True,
            ConsoleWarn ''No branch ID provided for fetching warehouses'',
            SetLoading False]\<rparr>
      else
        (let req = \<lparr>verb = GET, url = branchWarehouses (the branchId), query = [],
                     body = None\<rparr>
         in case reply of
              Rejected err \<Rightarrow>
                \<lparr>final = s\<lparr>loading := True, warehouses := [], loading := False\<rparr>,
                 outcome = Inr (),
                 trace =
                   [SetLoading True, HttpCall req,
                    ConsoleError ''Error fetching branch warehouses:'' (LogError err),
                    SetLoading False]\<rparr>
            | Resolved response \<Rightarrow>
                if status response = ''success'' then
                  \<lparr>final =
                     s\<lparr>loading := True,
                       warehouses := BranchWithWarehouses.warehouses (data response),
                       loading := False\<rparr>,
                   outcome = Inr (),
                   trace = [SetLoading True, HttpCall req, SetLoading False]\<rparr>
                else
                  \<lparr>final = s\<lparr>loading := True, warehouses := [], loading := False\<rparr>,
                   outcome = Inr (),
                   trace =
                     [SetLoading True, HttpCall req,
                      ConsoleError ''Failed to fetch warehouses:'' (LogMessage (message response)),
                      SetLoading False]\<rparr>))"

fun customer_type_literal :: "customer_type \<Rightarrow> string" where
  "customer_type_literal TypeSupplier = ''supplier''"
| "customer_type_literal TypeCustomer = ''customer''"

definition fetchCustomers ::
  "customer_type option \<Rightarrow> Customer list reply \<Rightarrow> Store \<Rightarrow> unit run" where
  "fetchCustomers ctype reply s =
     (let queryParam =
            (case ctype of
               Some t \<Rightarrow> [(''type'', QText (customer_type_literal t))]
             | None \<Rightarrow> []);
          req = \<lparr>verb = GET, url = customer_list, query = queryParam, body = None\<rparr>
      in case reply of
           Rejected err \<Rightarrow>
             \<lparr>final = s\<lparr>loading := True, loading := False\<rparr>,
              outcome = Inr (),
              trace =
                [SetLoading True, HttpCall req,
                 ConsoleError ''Error fetching customers:'' (LogError err),
                 SetLoading False]\<rparr>
         | Resolved response \<Rightarrow>
             if status response = ''success'' then
               \<lparr>final = s\<lparr>loading := True, customers := data response, loading := False\<rparr>,
                outcome = Inr (),
                trace = [SetLoading True, HttpCall req, SetLoading False]\<rparr>
             else
               \<lparr>final = s\<lparr>loading := True, loading := False\<rparr>,
                outcome = Inr (),
                trace = [SetLoading True, HttpCall req, SetLoading False]\<rparr>)"

text \<open>A parameter with a default value: \<^verbatim>\<open>undefined\<close> selects the default.\<close>

fun default_to :: "'a \<Rightarrow> 'a option \<Rightarrow> 'a" where
  "default_to d None = d"
| "default_to d (Some v) = v"

definition fetchTransactionList ::
  "transaction_type option \<Rightarrow> number option \<Rightarrow> json list reply \<Rightarrow> Store \<Rightarrow> unit run" where
  "fetchTransactionList transactionType page reply s =
     (let req =
            \<lparr>verb = GET,
             url = transaction_list (default_to Purchase transactionType),
             query =
               [(''page'', QNumber (default_to 1 page)),
                (''relations'', QText ''customer,warehouse,items''),
                (''paginate'', QText ''true'')],
             body = None\<rparr>
      in case reply of
           Rejected err \<Rightarrow>
             \<lparr>final = s\<lparr>loading := True, loading := False\<rparr>,
              outcome = Inr (),
              trace =
                [SetLoading True, HttpCall req,
                 ConsoleError ''Error fetching transaction list:'' (LogError err),
                 SetLoading False]\<rparr>
         | Resolved response \<Rightarrow>
             if status response = ''success'' then
               \<lparr>final =
                  (case ApiResponse.pagination response of
                     Some p \<Rightarrow>
                       if truthy p then
                         s\<lparr>loading := True, list := data response, pagination := Some p,
                           loading := False\<rparr>
                       else s\<lparr>loading := True, list := data response, loading := False\<rparr>
                   | None \<Rightarrow> s\<lparr>loading := True, list := data response, loading := False\<rparr>),
                outcome = Inr (),
                trace = [SetLoading True, HttpCall req, SetLoading False]\<rparr>
             else
               \<lparr>final = s\<lparr>loading := True, loading := False\<rparr>,
                outcome = Inr (),
                trace = [SetLoading True, HttpCall req, SetLoading False]\<rparr>)"

fun currency_literal :: "currency \<Rightarrow> string" where
  "currency_literal USD = ''USD''"
| "currency_literal IQD = ''IQD''"

definition fetchSingleTransaction ::
  "transaction_id \<Rightarrow> currency option \<Rightarrow> json reply \<Rightarrow> Store \<Rightarrow> json option run" where
  "fetchSingleTransaction transactionId currency reply s =
     (let req =
            \<lparr>verb = GET,
             url = transaction_one transactionId,
             query =
               [(''relations'', QText ''customer,warehouse,items''),
                (''currency'', QText (currency_literal (default_to USD currency)))],
             body = None\<rparr>
      in case reply of
           Rejected err \<Rightarrow>
             \<lparr>final = s\<lparr>loading := True, loading := False\<rparr>,
              outcome = Inl err,
              trace =
                [SetLoading True, HttpCall req,
                 ConsoleError ''Error fetching single transaction:'' (LogError err),
                 SetLoading False]\<rparr>
         | Resolved response \<Rightarrow>
             if status response = ''success'' then
               \<lparr>final = s\<lparr>loading := True, loading := False\<rparr>,
                outcome = Inr (Some (data response)),
                trace = [SetLoading True, HttpCall req, SetLoading False]\<rparr>
             else
               \<lparr>final = s\<lparr>loading := True, loading := False\<rparr>,
                outcome = Inr None,
                trace = [SetLoading True, HttpCall req, SetLoading False]\<rparr>)"

definition createTransaction ::
  "json \<Rightarrow> create_type \<Rightarrow> json reply \<Rightarrow> Store \<Rightarrow> json ApiResponse option run" where
  "createTransaction transaction transactionType reply s =
     (let req =
            \<lparr>verb = POST,
             url =
               transaction_create
                 (if transactionType = CreatePurchase then Purchase else Sell),
             query = [],
             body = Some transaction\<rparr>
      in case reply of
           Rejected err \<Rightarrow>
             \<lparr>final = s\<lparr>loading := True, loading := False\<rparr>,
              outcome = Inl err,
              trace =
                [SetLoading True, HttpCall req,
                 ConsoleError ''Error creating transaction:'' (LogError err),
                 SetLoading False]\<rparr>
         | Resolved response \<Rightarrow>
             if status response = ''success'' then
               \<lparr>final =
                  (resetForm
                     (s\<lparr>loading := True, transactions := data response # transactions s\<rparr>))
                  \<lparr>loading := False\<rparr>,
                outcome = Inr (Some response),
                trace = [SetLoading True, HttpCall req, SetLoading False]\<rparr>
             else
               \<lparr>final = s\<lparr>loading := True, loading := False\<rparr>,
                outcome = Inr None,
                trace = [SetLoading True, HttpCall req, SetLoading False]\<rparr>)"

text \<open>
  \<^verbatim>\<open>paySupplier\<close>, \<^verbatim>\<open>receiveFromCustomer\<close>, \<^verbatim>\<open>refundTransaction\<close> and
  \<^verbatim>\<open>feedingTransaction\<close> are the same code up to the request and the console line.
\<close>

definition post_and_return ::
  "request \<Rightarrow> string \<Rightarrow> json reply \<Rightarrow> Store \<Rightarrow> json ApiResponse option run" where
  "post_and_return req label reply s =
     (case reply of
        Rejected err \<Rightarrow>
          \<lparr>final = s\<lparr>loading := True, loading := False\<rparr>,
           outcome = Inl err,
           trace =
             [SetLoading True, HttpCall req, ConsoleError label (LogError err),
              SetLoading False]\<rparr>
      | Resolved response \<Rightarrow>
          if status response = ''success'' then
            \<lparr>final = s\<lparr>loading := True, loading := False\<rparr>,
             outcome = Inr (Some response),
             trace = [SetLoading True, HttpCall req, SetLoading False]\<rparr>
          else
            \<lparr>final = s\<lparr>loading := True, loading := False\<rparr>,
             outcome = Inr None,
             trace = [SetLoading True, HttpCall req, SetLoading False]\<rparr>)"

definition paySupplier :: "json \<Rightarrow> json reply \<Rightarrow> Store \<Rightarrow> json ApiResponse option run" where
  "paySupplier paymentData =
     post_and_return
       \<lparr>verb = POST, url = transaction_paySupplier, query = [], body = Some paymentData\<rparr>
       ''Error paying supplier:''"

definition receiveFromCustomer ::
  "json \<Rightarrow> json reply \<Rightarrow> Store \<Rightarrow> json ApiResponse option run" where
  "receiveFromCustomer paymentData =
     post_and_return
       \<lparr>verb = POST, url = transaction_receiveCustomer, query = [],
        body = Some paymentData\<rparr>
       ''Error receiving payment from customer:''"

definition refundTransaction ::
  "json \<Rightarrow> json reply \<Rightarrow> Store \<Rightarrow> json ApiResponse option run" where
  "refundTransaction refundData =
     post_and_return
       \<lparr>verb = POST, url = transaction_refund, query = [], body = Some refundData\<rparr>
       ''Error processing refund:''"

definition feedingTransaction ::
  "transaction_id \<Rightarrow> json reply \<Rightarrow> Store \<Rightarrow> json ApiResponse option run" where
  "feedingTransaction transactionId =
     post_and_return
       \<lparr>verb = PUT, url = transaction_freeding transactionId, query = [], body = None\<rparr>
       ''Error processing freeding (return to warehouse):''"

text \<open>
  The value of \<^verbatim>\<open>transactionType === 'sell' && warehouseId\<close> where it is truthy: the
  warehouse id of a sell search.
\<close>

definition sell_warehouse :: "transaction_type option \<Rightarrow> number option \<Rightarrow> number option" where
  "sell_warehouse transactionType warehouseId =
     (if transactionType = Some Sell \<and> truthy_number warehouseId then warehouseId else None)"

definition searchItems ::
  "string \<Rightarrow> number option \<Rightarrow> transaction_type option \<Rightarrow> json reply \<Rightarrow> Store \<Rightarrow> json run"
  where
  "searchItems searchQuery warehouseId transactionType reply s =
     (let req =
            (case sell_warehouse transactionType warehouseId of
               Some w \<Rightarrow>
                 \<lparr>verb = GET, url = specialwarehouseItems w,
                  query = [(''query'', QEncoded searchQuery), (''relations'', QText ''items'')],
                  body = None\<rparr>
             | None \<Rightarrow>
                 \<lparr>verb = GET, url = item_list,
                  query =
                    [(''query'', QEncoded searchQuery), (''relations'', QText ''category'')],
                  body = None\<rparr>);
          rethrown =
            (\<lambda>err.
               \<lparr>final = s\<lparr>loading := True, loading := False\<rparr>,
                outcome = Inl err,
                trace =
                  [SetLoading True, HttpCall req,
                   ConsoleError ''Error searching items:'' (LogError err),
                   SetLoading False]\<rparr>);
          returned =
            (\<lambda>v.
               \<lparr>final = s\<lparr>loading := True, loading := False\<rparr>,
                outcome = Inr v,
                trace = [SetLoading True, HttpCall req, SetLoading False]\<rparr>)
      in case reply of
           Rejected err \<Rightarrow> rethrown err
         | Resolved response \<Rightarrow>
             if status response = ''success'' then
               if sell_warehouse transactionType warehouseId \<noteq> None
                  \<and> truthy (optional_items (data response))
               then
                 (let itemsData = optional_items (data response) in
                  if isArray itemsData then returned itemsData
                  else if typeof itemsData = ''object'' \<and> itemsData \<noteq> JNull then
                    (case Object_values itemsData of
                       Some vs \<Rightarrow> returned (JArr vs)
                     | None \<Rightarrow> rethrown (Error ''TypeError''))
                  else returned (JArr []))
               else returned (if truthy (data response) then data response else JArr [])
             else returned (JArr []))"

subsection \<open>The interface of the store\<close>

text \<open>
  One call of an action that the store exports, with its arguments and, where the action
  awaits a request, the reply; \<open>perform\<close> gives the store after the call.
\<close>

datatype action =
    FetchBranchWarehouses "number option" "BranchWithWarehouses reply"
  | FetchCustomers "customer_type option" "Customer list reply"
  | FetchTransactionList "transaction_type option" "number option" "json list reply"
  | FetchSingleTransaction transaction_id "currency option" "json reply"
  | CreateTransaction json create_type "json reply"
  | AddSelectedItem Product
  | RemoveSelectedItem number
  | UpdateSelectedItemQuantity number number
  | UpdateSelectedItemPrice number number
  | ResetForm
  | PaySupplier json "json reply"
  | ReceiveFromCustomer json "json reply"
  | RefundTransaction json "json reply"
  | FeedingTransaction transaction_id "json reply"
  | SearchItems string "number option" "transaction_type option" "json reply"

fun perform :: "action \<Rightarrow> Store \<Rightarrow> Store" where
  "perform (FetchBranchWarehouses branchId reply) s = final (fetchBranchWarehouses branchId reply s)"
| "perform (FetchCustomers ctype reply) s = final (fetchCustomers ctype reply s)"
| "perform (FetchTransactionList transactionType page reply) s =
     final (fetchTransactionList transactionType page reply s)"
| "perform (FetchSingleTransaction transactionId currency reply) s =
     final (fetchSingleTransaction transactionId currency reply s)"
| "perform (CreateTransaction transaction transactionType reply) s =
     final (createTransaction transaction transactionType reply s)"
| "perform (AddSelectedItem itm) s = addSelectedItem itm s"
| "perform (RemoveSelectedItem itemId) s = removeSelectedItem itemId s"
| "perform (UpdateSelectedItemQuantity itemId qty) s = updateSelectedItemQuantity itemId qty s"
| "perform (UpdateSelectedItemPrice itemId price) s = updateSelectedItemPrice itemId price s"
| "perform ResetForm s = resetForm s"
| "perform (PaySupplier paymentData reply) s = final (paySupplier paymentData reply s)"
| "perform (ReceiveFromCustomer paymentData reply) s =
     final (receiveFromCustomer paymentData reply s)"
| "perform (RefundTransaction refundData reply) s = final (refundTransaction refundData reply s)"
| "perform (FeedingTransaction transactionId reply) s =
     final (feedingTransaction transactionId reply s)"
| "perform (SearchItems searchQuery warehouseId transactionType reply) s =
     final (searchItems searchQuery warehouseId transactionType reply s)"

text \<open>The invariant of the selection: no two entries carry the same item id.\<close>

definition unique_item_ids :: "Store \<Rightarrow> bool" where
  "unique_item_ids s = distinct (map item_id (selectedItems s))"

subsection \<open>A sample store\<close>

text \<open>
  A store in the middle of a sale: two items selected (two at 5 and one at 3), a form
  partly filled in, and lists loaded by earlier calls.
\<close>

definition sample_product :: Product where
  "sample_product =
     \<lparr>id' = 1, Product.solo_unit_price = Some 5, Product.bulk_unit_price = Some 4\<rparr>"

definition second_product :: Product where
  "second_product =
     \<lparr>id' = 2, Product.solo_unit_price = Some 3, Product.bulk_unit_price = None\<rparr>"


definition sample_store :: Store where
  "sample_store =
     \<lparr>loading = False,
      list = [JStr ''sale 17''],
      pagination = Some (JObj [(''current_page'', JNum 1)]),
      transactions = [JStr ''purchase 3''],
      warehouses = [JStr ''main warehouse''],
      customers = [\<lparr>type = ''supplier''\<rparr>, \<lparr>type = ''customer''\<rparr>],
      selectedItems =
        [\<lparr>item_id = 1, item = sample_product, quantity = 2, unit_price = 5,
          solo_unit_price = 5, bulk_unit_price = 4\<rparr>,
         \<lparr>item_id = 2, item = second_product, quantity = 1, unit_price = 3,
          solo_unit_price = 3, bulk_unit_price = 0\<rparr>],
      transactionForm =
        \<lparr>customer_id = Some 7, warehouse_id = Some 4, payment_type = borrow,
         note' = ''deliver on Monday'', details = []\<rparr>\<rparr>"

text \<open>
  The binary64 number nearest to 0.1, which is what the literal \<^verbatim>\<open>0.1\<close> and the JSON
  text \<^verbatim>\<open>0.1\<close> denote, and a store with three units selected at that price.
\<close>

definition tenth :: number where
  "tenth = 3602879701896397 / 36028797018963968"

definition tenths_store :: Store where
  "tenths_store =
     initial_store
       \<lparr>selectedItems :=
          [\<lparr>item_id = 1, item = sample_product, quantity = 3, unit_price = tenth,
            solo_unit_price = tenth, bulk_unit_price = tenth\<rparr>]\<rparr>"

definition failed_response :: "json ApiResponse" where
  "failed_response =
     \<lparr>status = ''error'', data = JNull, message = Some ''out of stock'',
      ApiResponse.pagination = None\<rparr>"

definition keyed_items_response :: "json ApiResponse" where
  "keyed_items_response =
     \<lparr>status = ''success'',
      data =
        JObj [(''id'', JNum 4),
              (''items'', JObj [(''11'', JStr ''pen''), (''12'', JStr ''ink'')])],
      message = None, ApiResponse.pagination = None\<rparr>"

definition listed_items_response :: "json ApiResponse" where
  "listed_items_response =
     \<lparr>status = ''success'',
      data = JObj [(''id'', JNum 4), (''items'', JArr [JStr ''pen'', JStr ''ink''])],
      message = None, ApiResponse.pagination = None\<rparr>"

section \<open>Properties\<close>

subsection \<open>Arrays\<close>

lemma findIndex_first:
  "\<forall>y\<in>set ys. \<not> p y \<Longrightarrow> p e \<Longrightarrow> findIndex p (ys @ e # zs) = int (length ys)"
  by (induction ys) (simp_all add: Let_def)

lemma findIndex_none: "\<forall>x\<in>set xs. \<not> p x \<Longrightarrow> findIndex p xs = - 1"
  by (induction xs) (simp_all add: Let_def)

lemma find_first: "\<forall>y\<in>set ys. \<not> p y \<Longrightarrow> p e \<Longrightarrow> find p (ys @ e # zs) = Some e"
  by (induction ys) simp_all

lemma find_none: "\<forall>x\<in>set xs. \<not> p x \<Longrightarrow> find p xs = None"
  by (induction xs) simp_all

lemma write_found_first:
  "\<forall>y\<in>set ys. \<not> p y \<Longrightarrow> p e \<Longrightarrow> write_found p f (ys @ e # zs) = ys @ f e # zs"
  by (induction ys) simp_all

lemma at_index_first: "at_index (ys @ e # zs) (int (length ys)) = Some e"
  by (simp add: at_index_def)

lemma splice_out_first: "splice_out (ys @ e # zs) (int (length ys)) (Suc 0) = ys @ zs"
  by (simp add: splice_out_def)


subsection \<open>The selection, entry by entry\<close>

lemma addSelectedItem_present:
  assumes "\<exists>e\<in>set (selectedItems s). item_id e = id' itm"
  shows "\<exists>ys e zs. selectedItems s = ys @ e # zs \<and> item_id e = id' itm \<and>
           (\<forall>y\<in>set ys. item_id y \<noteq> id' itm) \<and>
           addSelectedItem itm s =
             s\<lparr>selectedItems := ys @ e\<lparr>quantity := quantity e + 1\<rparr> # zs\<rparr>"
proof -
  from split_list_first_prop[OF assms] obtain ys e zs where
    xs: "selectedItems s = ys @ e # zs" and e: "item_id e = id' itm"
    and ys: "\<forall>y\<in>set ys. item_id y \<noteq> id' itm" by blast
  have "findIndex (\<lambda>si. item_id si = id' itm) (selectedItems s) = int (length ys)"
    unfolding xs using ys e by (intro findIndex_first) auto
  then have "addSelectedItem itm s =
      s\<lparr>selectedItems := ys @ e\<lparr>quantity := quantity e + 1\<rparr> # zs\<rparr>"
    by (simp add: addSelectedItem_def xs at_index_first)
  with xs e ys show ?thesis by blast
qed

lemma addSelectedItem_absent:
  assumes "\<forall>e\<in>set (selectedItems s). item_id e \<noteq> id' itm"
  shows "addSelectedItem itm s =
     s\<lparr>selectedItems := selectedItems s @
        [\<lparr>item_id = id' itm, item = itm, quantity = 1,
          unit_price = or_zero (Product.solo_unit_price itm),
          solo_unit_price = or_zero (Product.solo_unit_price itm),
          bulk_unit_price = or_zero (Product.bulk_unit_price itm)\<rparr>]\<rparr>"
proof -
  have "findIndex (\<lambda>si. item_id si = id' itm) (selectedItems s) = - 1"
    using assms by (intro findIndex_none) auto
  then show ?thesis by (simp add: addSelectedItem_def)
qed

lemma removeSelectedItem_present:
  assumes "\<exists>e\<in>set (selectedItems s). item_id e = itemId"
  shows "\<exists>ys e zs. selectedItems s = ys @ e # zs \<and>
           removeSelectedItem itemId s = s\<lparr>selectedItems := ys @ zs\<rparr>"
proof -
  from split_list_first_prop[OF assms] obtain ys e zs where
    xs: "selectedItems s = ys @ e # zs" and e: "item_id e = itemId"
    and ys: "\<forall>y\<in>set ys. item_id y \<noteq> itemId" by blast
  have "findIndex (\<lambda>si. item_id si = itemId) (selectedItems s) = int (length ys)"
    unfolding xs using ys e by (intro findIndex_first) auto
  then have "removeSelectedItem itemId s = s\<lparr>selectedItems := ys @ zs\<rparr>"
    by (simp add: removeSelectedItem_def xs splice_out_first)
  with xs show ?thesis by blast
qed

lemma removeSelectedItem_absent:
  assumes "\<forall>e\<in>set (selectedItems s). item_id e \<noteq> itemId"
  shows "removeSelectedItem itemId s = s"
proof -
  have "findIndex (\<lambda>si. item_id si = itemId) (selectedItems s) = - 1"
    using assms by (intro findIndex_none) auto
  then show ?thesis by (simp add: removeSelectedItem_def)
qed

lemma write_selected_present:
  assumes "\<exists>e\<in>set xs. item_id e = itemId"
  shows "\<exists>ys e zs. xs = ys @ e # zs \<and> item_id e = itemId \<and>
           (\<forall>y\<in>set ys. item_id y \<noteq> itemId) \<and>
           find (\<lambda>si. item_id si = itemId) xs = Some e \<and>
           write_found (\<lambda>si. item_id si = itemId) f xs = ys @ f e # zs"
proof -
  from split_list_first_prop[OF assms] obtain ys e zs where
    xs: "xs = ys @ e # zs" and e: "item_id e = itemId"
    and ys: "\<forall>y\<in>set ys. item_id y \<noteq> itemId" by blast
  have "find (\<lambda>si. item_id si = itemId) xs = Some e"
    unfolding xs using ys e by (intro find_first) auto
  moreover have "write_found (\<lambda>si. item_id si = itemId) f xs = ys @ f e # zs"
    unfolding xs using ys e by (intro write_found_first) auto
  ultimately show ?thesis using xs e ys by blast
qed

lemma find_selected_absent:
  assumes "\<forall>e\<in>set xs. item_id e \<noteq> itemId"
  shows "find (\<lambda>si. item_id si = itemId) xs = None"
  using assms by (intro find_none) auto

lemma write_found_item_ids:
  "\<forall>x. item_id (f x) = item_id x \<Longrightarrow> map item_id (write_found p f xs) = map item_id xs"
  by (induction xs) simp_all

lemma addSelectedItem_unique:
  assumes "unique_item_ids s"
  shows "unique_item_ids (addSelectedItem itm s)"
proof (cases "\<exists>e\<in>set (selectedItems s). item_id e = id' itm")
  case True
  from addSelectedItem_present[OF True] obtain ys e zs where
    "selectedItems s = ys @ e # zs"
    "addSelectedItem itm s = s\<lparr>selectedItems := ys @ e\<lparr>quantity := quantity e + 1\<rparr> # zs\<rparr>"
    by blast
  with assms show ?thesis by (simp add: unique_item_ids_def)
next
  case False
  then have absent: "\<forall>e\<in>set (selectedItems s). item_id e \<noteq> id' itm" by blast
  then have "id' itm \<notin> set (map item_id (selectedItems s))" by auto
  with assms show ?thesis
    by (simp add: addSelectedItem_absent[OF absent] unique_item_ids_def)
qed

lemma removeSelectedItem_unique:
  assumes "unique_item_ids s"
  shows "unique_item_ids (removeSelectedItem itemId s)"
proof (cases "\<exists>e\<in>set (selectedItems s). item_id e = itemId")
  case True
  from removeSelectedItem_present[OF True] obtain ys e zs where
    "selectedItems s = ys @ e # zs"
    "removeSelectedItem itemId s = s\<lparr>selectedItems := ys @ zs\<rparr>"
    by blast
  with assms show ?thesis by (simp add: unique_item_ids_def)
next
  case False
  then have "\<forall>e\<in>set (selectedItems s). item_id e \<noteq> itemId" by blast
  with assms show ?thesis by (simp add: removeSelectedItem_absent)
qed

lemma updateSelectedItemQuantity_item_ids:
  "map item_id (selectedItems (updateSelectedItemQuantity itemId qty s)) =
     map item_id (selectedItems s)"
  by (simp add: updateSelectedItemQuantity_def write_found_item_ids split: option.split)

lemma updateSelectedItemPrice_item_ids:
  "map item_id (selectedItems (updateSelectedItemPrice itemId price s)) =
     map item_id (selectedItems s)"
  by (simp add: updateSelectedItemPrice_def write_found_item_ids split: option.split)

subsection \<open>What a request-issuing action leaves alone\<close>

lemma fetchBranchWarehouses_selection:
  "selectedItems (final (fetchBranchWarehouses branchId reply s)) = selectedItems s"
  by (simp add: fetchBranchWarehouses_def Let_def split: reply.split)

lemma fetchCustomers_selection:
  "selectedItems (final (fetchCustomers ctype reply s)) = selectedItems s"
  by (simp add: fetchCustomers_def Let_def split: reply.split)

lemma fetchTransactionList_selection:
  "selectedItems (final (fetchTransactionList transactionType page reply s)) = selectedItems s"
  by (simp add: fetchTransactionList_def Let_def split: reply.split option.split)

lemma fetchSingleTransaction_selection:
  "selectedItems (final (fetchSingleTransaction transactionId currency reply s)) =
     selectedItems s"
  by (simp add: fetchSingleTransaction_def Let_def split: reply.split)

lemma createTransaction_selection:
  "selectedItems (final (createTransaction transaction transactionType reply s)) =
     (case reply of
        Rejected err \<Rightarrow> selectedItems s
      | Resolved response \<Rightarrow> if status response = ''success'' then [] else selectedItems s)"
  by (simp add: createTransaction_def resetForm_def Let_def split: reply.split)

lemma post_and_return_selection:
  "selectedItems (final (post_and_return req label reply s)) = selectedItems s"
  by (simp add: post_and_return_def split: reply.split)

lemma searchItems_selection:
  "selectedItems (final (searchItems searchQuery warehouseId transactionType reply s)) =
     selectedItems s"
  by (simp add: searchItems_def Let_def split: reply.split option.split)

lemma searchItems_calls:
  "map url (calls (trace (searchItems searchQuery warehouseId transactionType reply s))) =
     [case sell_warehouse transactionType warehouseId of
        Some w \<Rightarrow> specialwarehouseItems w
      | None \<Rightarrow> item_list]"
  by (simp add: searchItems_def calls_def Let_def split: reply.split option.split)

subsection \<open>Rounding to binary64\<close>

lemma two_powi_less_iff: "(2::real) powi m < 2 powi n \<longleftrightarrow> m < n"
proof
  assume less: "(2::real) powi m < 2 powi n"
  show "m < n"
  proof (rule ccontr)
    assume "\<not> m < n"
    then have "n \<le> m" by simp
    then have "(2::real) powi n \<le> 2 powi m" by (intro power_int_increasing) simp_all
    with less show False by simp
  qed
next
  assume "m < n"
  then show "(2::real) powi m < 2 powi n" by (intro power_int_strict_increasing) simp_all
qed

lemma grid_exponent_le:
  "a < 2 powi (E + 53) \<Longrightarrow> - 1074 \<le> E \<Longrightarrow> grid_exponent n a \<le> E"
proof (induction n)
  case 0
  then show ?case by simp
next
  case (Suc n)
  show ?case
  proof (cases "2 powi (int n - 1021) \<le> a")
    case True
    with Suc.prems(1) have "(2::real) powi (int n - 1021) < 2 powi (E + 53)" by simp
    then have "int n - 1021 < E + 53" by (simp only: two_powi_less_iff)
    with True show ?thesis by simp
  next
    case False
    with Suc show ?thesis by simp
  qed
qed

lemma grid_exponent_ge:
  "2 powi (E + 52) \<le> a \<Longrightarrow> E \<le> int n - 1074 \<Longrightarrow> E \<le> grid_exponent n a"
proof (induction n)
  case 0
  then show ?case by simp
next
  case (Suc n)
  show ?case
  proof (cases "2 powi (int n - 1021) \<le> a")
    case True
    with Suc.prems(2) show ?thesis by simp
  next
    case False
    with Suc.prems(1) have "(2::real) powi (E + 52) < 2 powi (int n - 1021)" by simp
    then have "E + 52 < int n - 1021" by (simp only: two_powi_less_iff)
    then have "E \<le> int n - 1074" by simp
    with Suc.IH[OF Suc.prems(1)] False show ?thesis by simp
  qed
qed

lemma grid_exponent_eq:
  assumes "2 powi (E + 52) \<le> a" and "a < 2 powi (E + 53)"
    and "- 1074 \<le> E" and "E \<le> int n - 1074"
  shows "grid_exponent n a = E"
  using grid_exponent_le[OF assms(2,3), of n] grid_exponent_ge[OF assms(1,4)] by simp

lemma round_half_even_of_int: "round_half_even (of_int k) = k"
  by (simp add: round_half_even_def)

text \<open>Rounding within a known binade.\<close>

lemma binary64_in_binade:
  assumes "2 powi (E + 52) \<le> \<bar>x\<bar>" and "\<bar>x\<bar> < 2 powi (E + 53)"
    and "- 1074 \<le> E" and "E \<le> 971"
  shows "binary64 x =
    (if \<bar>of_int (round_half_even (x / 2 powi E)) * 2 powi E\<bar> < (2::real) powi 1024
     then Some (of_int (round_half_even (x / 2 powi E)) * 2 powi E) else None)"
proof -
  have "grid_exponent 2045 \<bar>x\<bar> = E"
    using assms by (intro grid_exponent_eq) simp_all
  then show ?thesis by (simp add: binary64_def Let_def)
qed

text \<open>A number on the grid of its own magnitude is not changed by rounding.\<close>

lemma binary64_on_grid:
  assumes "x = of_int m * 2 powi e" and "\<bar>x\<bar> < 2 powi 1024"
    and "grid_exponent 2045 \<bar>x\<bar> \<le> e"
  shows "binary64 x = Some x"
proof -
  define g where "g = grid_exponent 2045 \<bar>x\<bar>"
  from assms(3) have ge: "0 \<le> e - g" by (simp add: g_def)
  have "(2::real) powi e = 2 powi (e - g) * 2 powi g"
    by (simp flip: power_int_add)
  also have "(2::real) powi (e - g) = of_int (2 ^ nat (e - g))"
    using ge by (simp add: power_int_def)
  finally have scaled: "x / 2 powi g = of_int (m * 2 ^ nat (e - g))"
    by (simp add: assms(1))
  then have "round_half_even (x / 2 powi g) = m * 2 ^ nat (e - g)"
    by (simp only: round_half_even_of_int)
  moreover have "of_int (m * 2 ^ nat (e - g)) * 2 powi g = x"
    using scaled by (simp add: field_simps)
  ultimately show ?thesis
    using assms(2) by (simp add: binary64_def g_def[symmetric] Let_def)
qed

text \<open>Every integer of magnitude below \<open>2 ^ 53\<close> is a binary64 number.\<close>

lemma binary64_of_int:
  assumes "\<bar>k\<bar> < 2 ^ 53"
  shows "binary64 (of_int k) = Some (of_int k)"
proof (rule binary64_on_grid[where m = k and e = 0])
  show "(of_int k :: real) = of_int k * 2 powi 0" by simp
  have "\<bar>of_int k :: real\<bar> < 2 ^ 53"
    using assms by (metis of_int_abs of_int_less_numeral_power_cancel_iff)
  then have small: "\<bar>of_int k :: real\<bar> < 2 powi (0 + 53)" by simp
  also have "(2::real) powi (0 + 53) < 2 powi 1024" by (simp add: two_powi_less_iff)
  finally show "\<bar>of_int k :: real\<bar> < 2 powi 1024" .
  from grid_exponent_le[OF small] show "grid_exponent 2045 \<bar>of_int k :: real\<bar> \<le> 0" by simp
qed

lemma binary64_Ints:
  assumes "x \<in> \<int>" and "\<bar>x\<bar> < 2 ^ 53"
  shows "binary64 x = Some x"
proof -
  from assms(1) obtain k where k: "x = of_int k" by (auto elim: Ints_cases)
  with assms(2) have "\<bar>k\<bar> < 2 ^ 53"
    by (metis of_int_abs of_int_less_numeral_power_cancel_iff)
  then show ?thesis unfolding k by (rule binary64_of_int)
qed

text \<open>The rounding at the edge of the finite range, and at a tie.\<close>

lemma grid_exponent_upper: "grid_exponent n a \<le> int n - 1074"
  by (induction n) auto

lemma binary64_overflow: "binary64 (2 powi 1024) = None"
proof -
  define x :: real where "x = 2 powi 1024"
  have "971 \<le> grid_exponent 2045 \<bar>x\<bar>"
    by (intro grid_exponent_ge) (simp_all add: x_def power_int_increasing)
  with grid_exponent_upper[of 2045 "\<bar>x\<bar>"]
  have e: "grid_exponent 2045 \<bar>x\<bar> = 971" by simp
  have "x / 2 powi 971 = of_int (2 ^ 53)"
    by (simp add: x_def)
  then have q: "round_half_even (x / 2 powi 971) = 2 ^ 53"
    by (simp only: round_half_even_of_int)
  have r: "(of_int (2 ^ 53) :: real) * 2 powi 971 = x"
    by (simp add: x_def)
  have "\<not> \<bar>x\<bar> < 2 powi 1024" by (simp add: x_def)
  then have "binary64 x = None"
    by (simp only: binary64_def Let_def e q r if_False)
  then show ?thesis by (simp only: x_def)
qed

lemma binary64_tie_to_even: "binary64 (2 ^ 53 + 1) = Some (2 ^ 53)"
  and "binary64 (2 ^ 53 + 3) = Some (2 ^ 53 + 4)"
proof -
  have a: "2 powi (1 + 52) \<le> \<bar>2 ^ 53 + 1 :: real\<bar>" "\<bar>2 ^ 53 + 1 :: real\<bar> < 2 powi (1 + 53)"
    by simp_all
  from binary64_in_binade[OF a] show "binary64 (2 ^ 53 + 1) = Some (2 ^ 53)"
    by (simp add: round_half_even_def)
  have b: "2 powi (1 + 52) \<le> \<bar>2 ^ 53 + 3 :: real\<bar>" "\<bar>2 ^ 53 + 3 :: real\<bar> < 2 powi (1 + 53)"
    by simp_all
  from binary64_in_binade[OF b] show "binary64 (2 ^ 53 + 3) = Some (2 ^ 53 + 4)"
    by (simp add: round_half_even_def)
qed

subsection \<open>The total, entry by entry\<close>

lemma total_of_binary64:
  assumes "\<forall>e\<in>set xs. is_binary64 (f e)"
    and "\<forall>k\<le>length xs. is_binary64 (t + sum_list (map f (take k xs)))"
  shows "foldl
       (\<lambda>total itm.
          case total of
            None \<Rightarrow> None
          | Some t \<Rightarrow> (case binary64 (f itm) of None \<Rightarrow> None | Some p \<Rightarrow> binary64 (t + p)))
       (Some t) xs = Some (t + sum_list (map f xs))"
  using assms
proof (induction xs arbitrary: t)
  case Nil
  then show ?case by simp
next
  case (Cons e xs)
  from Cons.prems(1) have p: "binary64 (f e) = Some (f e)"
    by (simp add: is_binary64_def)
  from Cons.prems(2) have "is_binary64 (t + sum_list (map f (take 1 (e # xs))))"
    by (metis One_nat_def Suc_leI length_Cons zero_less_Suc)
  then have sum: "binary64 (t + f e) = Some (t + f e)"
    by (simp add: is_binary64_def)
  have rest: "\<forall>k\<le>length xs. is_binary64 (t + f e + sum_list (map f (take k xs)))"
  proof (intro allI impI)
    fix k assume "k \<le> length xs"
    then have "Suc k \<le> length (e # xs)" by simp
    with Cons.prems(2) have "is_binary64 (t + sum_list (map f (take (Suc k) (e # xs))))"
      by blast
    then show "is_binary64 (t + f e + sum_list (map f (take k xs)))"
      by (simp add: add.assoc)
  qed
  from Cons.prems(1) have "\<forall>e\<in>set xs. is_binary64 (f e)" by simp
  from Cons.IH[OF this rest] show ?case
    by (simp add: p sum add.assoc)
qed

lemma total_of_integers:
  assumes "\<forall>e\<in>set xs. f e \<in> \<int>" and "t \<in> \<int>"
    and "\<bar>t\<bar> + sum_list (map (\<lambda>e. \<bar>f e\<bar>) xs) < 2 ^ 53"
  shows "foldl
       (\<lambda>total itm.
          case total of
            None \<Rightarrow> None
          | Some t \<Rightarrow> (case binary64 (f itm) of None \<Rightarrow> None | Some p \<Rightarrow> binary64 (t + p)))
       (Some t) xs = Some (t + sum_list (map f xs))"
  using assms
proof (induction xs arbitrary: t)
  case Nil
  then show ?case by simp
next
  case (Cons e xs)
  have nonneg: "0 \<le> sum_list (map (\<lambda>e. \<bar>f e\<bar>) xs)"
    by (rule sum_list_nonneg) auto
  from Cons.prems(1) have fe: "f e \<in> \<int>" by simp
  from Cons.prems(3) nonneg have "\<bar>f e\<bar> < 2 ^ 53" by simp
  with fe have p: "binary64 (f e) = Some (f e)" by (rule binary64_Ints)
  from fe Cons.prems(2) have te: "t + f e \<in> \<int>" by simp
  from Cons.prems(3) nonneg have "\<bar>t + f e\<bar> < 2 ^ 53" by simp
  with te have sum: "binary64 (t + f e) = Some (t + f e)" by (rule binary64_Ints)
  have "\<bar>t + f e\<bar> + sum_list (map (\<lambda>e. \<bar>f e\<bar>) xs) < 2 ^ 53"
    using Cons.prems(3) by simp
  moreover from Cons.prems(1) have "\<forall>e\<in>set xs. f e \<in> \<int>" by simp
  ultimately show ?case
    using Cons.IH[OF _ te] by (simp add: p sum add.assoc)
qed

section \<open>The claims\<close>

text \<open>
  C1. A call of \<open>createTransaction\<close> whose request is rejected leaves \<open>transactions\<close>,
  the transaction form and \<open>selectedItems\<close> as they were before the call, and the promise
  is rejected with the very error of the request.
\<close>

theorem createTransaction_rejected:
  "(let r = createTransaction transaction transactionType (Rejected err) s in
      outcome r = Inl err
      \<and> transactions (final r) = transactions s
      \<and> transactionForm (final r) = transactionForm s
      \<and> selectedItems (final r) = selectedItems s)"
  by (simp add: createTransaction_def Let_def)

text \<open>
  C2, as the code has it. A rejected request is not propagated by any of the three read
  actions: each promise resolves. \<open>fetchBranchWarehouses\<close> then leaves \<open>warehouses\<close> empty,
  whereas \<open>fetchCustomers\<close> leaves \<open>customers\<close>, and \<open>fetchTransactionList\<close> leaves \<open>list\<close>
  and \<open>pagination\<close>, as they were before the call.
\<close>

theorem read_failures_swallowed:
  "outcome (fetchBranchWarehouses branchId (Rejected err) s) = Inr ()
   \<and> warehouses (final (fetchBranchWarehouses branchId (Rejected err) s)) = []
   \<and> outcome (fetchCustomers ctype (Rejected err) s) = Inr ()
   \<and> customers (final (fetchCustomers ctype (Rejected err) s)) = customers s
   \<and> outcome (fetchTransactionList transactionType page (Rejected err) s) = Inr ()
   \<and> list (final (fetchTransactionList transactionType page (Rejected err) s)) = list s
   \<and> pagination (final (fetchTransactionList transactionType page (Rejected err) s)) =
       pagination s"
  by (simp add: fetchBranchWarehouses_def fetchCustomers_def fetchTransactionList_def Let_def)

text \<open>
  C2, as the specification words it, fails: after a rejected request the customers and the
  transaction list of the sample store are still there, not empty.
\<close>

theorem failed_fetch_keeps_customers_and_list:
  "customers (final (fetchCustomers None (Rejected (Error ''timeout'')) sample_store)) \<noteq> []
   \<and> list (final (fetchTransactionList None None (Rejected (Error ''timeout'')) sample_store))
       \<noteq> []"
  by (simp add: fetchCustomers_def fetchTransactionList_def sample_store_def Let_def)



text \<open>
  C4. Every action of the store, with any arguments and any reply, takes a store whose
  selection has pairwise different item ids to a store whose selection has pairwise
  different item ids.
\<close>

theorem perform_keeps_item_ids_unique:
  assumes "unique_item_ids s"
  shows "unique_item_ids (perform a s)"
proof (cases a)
  case (AddSelectedItem itm)
  with assms show ?thesis by (simp add: addSelectedItem_unique)
next
  case (RemoveSelectedItem itemId)
  with assms show ?thesis by (simp add: removeSelectedItem_unique)
next
  case (UpdateSelectedItemQuantity itemId qty)
  with assms show ?thesis
    by (simp add: unique_item_ids_def updateSelectedItemQuantity_item_ids)
next
  case (UpdateSelectedItemPrice itemId price)
  with assms show ?thesis
    by (simp add: unique_item_ids_def updateSelectedItemPrice_item_ids)
next
  case ResetForm
  then show ?thesis by (simp add: unique_item_ids_def resetForm_def)
next
  case (CreateTransaction transaction transactionType reply)
  with assms show ?thesis
    by (simp add: unique_item_ids_def createTransaction_selection split: reply.split)
next
  case (FetchBranchWarehouses branchId reply)
  with assms show ?thesis
    by (simp add: unique_item_ids_def fetchBranchWarehouses_selection)
next
  case (FetchCustomers ctype reply)
  with assms show ?thesis by (simp add: unique_item_ids_def fetchCustomers_selection)
next
  case (FetchTransactionList transactionType page reply)
  with assms show ?thesis
    by (simp add: unique_item_ids_def fetchTransactionList_selection)
next
  case (FetchSingleTransaction transactionId currency reply)
  with assms show ?thesis
    by (simp add: unique_item_ids_def fetchSingleTransaction_selection)
next
  case (PaySupplier paymentData reply)
  with assms show ?thesis
    by (simp add: unique_item_ids_def paySupplier_def post_and_return_selection)
next
  case (ReceiveFromCustomer paymentData reply)
  with assms show ?thesis
    by (simp add: unique_item_ids_def receiveFromCustomer_def post_and_return_selection)
next
  case (RefundTransaction refundData reply)
  with assms show ?thesis
    by (simp add: unique_item_ids_def refundTransaction_def post_and_return_selection)
next
  case (FeedingTransaction transactionId reply)
  with assms show ?thesis
    by (simp add: unique_item_ids_def feedingTransaction_def post_and_return_selection)
next
  case (SearchItems searchQuery warehouseId transactionType reply)
  with assms show ?thesis by (simp add: unique_item_ids_def searchItems_selection)
qed

text \<open>The sample store has unique item ids, and still has after item 1 is added again.\<close>

theorem perform_keeps_item_ids_unique_witness:
  "unique_item_ids sample_store
   \<and> unique_item_ids (perform (AddSelectedItem sample_product) sample_store)"
proof -
  have h: "unique_item_ids sample_store"
    by (simp add: unique_item_ids_def sample_store_def)
  from perform_keeps_item_ids_unique[OF h, of "AddSelectedItem sample_product"] h
  show ?thesis by blast
qed

text \<open>
  C5. \<open>updateSelectedItemQuantity\<close> leaves the store as it is when no entry has the id or
  the quantity is not above 0; otherwise it sets the quantity of the first entry with that
  id and nothing else. \<open>updateSelectedItemPrice\<close> leaves the store as it is when no entry
  has the id or the price is below 0; otherwise it sets the unit price of the first entry
  with that id and nothing else.
\<close>

theorem update_selected_item_guarded:
  "((\<forall>e\<in>set (selectedItems s). item_id e \<noteq> itemId) \<or> qty \<le> 0 \<longrightarrow>
      updateSelectedItemQuantity itemId qty s = s)
   \<and> ((\<exists>e\<in>set (selectedItems s). item_id e = itemId) \<and> qty > 0 \<longrightarrow>
      (\<exists>ys e zs.
         selectedItems s = ys @ e # zs \<and> item_id e = itemId \<and>
         (\<forall>y\<in>set ys. item_id y \<noteq> itemId) \<and>
         updateSelectedItemQuantity itemId qty s =
           s\<lparr>selectedItems := ys @ e\<lparr>quantity := qty\<rparr> # zs\<rparr>))
   \<and> ((\<forall>e\<in>set (selectedItems s). item_id e \<noteq> itemId) \<or> price < 0 \<longrightarrow>
      updateSelectedItemPrice itemId price s = s)
   \<and> ((\<exists>e\<in>set (selectedItems s). item_id e = itemId) \<and> price \<ge> 0 \<longrightarrow>
      (\<exists>ys e zs.
         selectedItems s = ys @ e # zs \<and> item_id e = itemId \<and>
         (\<forall>y\<in>set ys. item_id y \<noteq> itemId) \<and>
         updateSelectedItemPrice itemId price s =
           s\<lparr>selectedItems := ys @ e\<lparr>unit_price := price\<rparr> # zs\<rparr>))"
proof (intro conjI impI)
  assume "(\<forall>e\<in>set (selectedItems s). item_id e \<noteq> itemId) \<or> qty \<le> 0"
  then show "updateSelectedItemQuantity itemId qty s = s"
  proof
    assume "\<forall>e\<in>set (selectedItems s). item_id e \<noteq> itemId"
    then show ?thesis
      by (simp add: updateSelectedItemQuantity_def find_selected_absent)
  next
    assume "qty \<le> 0"
    then show ?thesis
      by (simp add: updateSelectedItemQuantity_def split: option.split)
  qed
next
  assume "(\<exists>e\<in>set (selectedItems s). item_id e = itemId) \<and> qty > 0"
  then have present: "\<exists>e\<in>set (selectedItems s). item_id e = itemId" and pos: "qty > 0"
    by blast+
  from write_selected_present[OF present, of "\<lambda>si. si\<lparr>quantity := qty\<rparr>"]
  obtain ys e zs where
    xs: "selectedItems s = ys @ e # zs" "item_id e = itemId"
      "\<forall>y\<in>set ys. item_id y \<noteq> itemId"
    and found: "find (\<lambda>si. item_id si = itemId) (selectedItems s) = Some e"
    and written: "write_found (\<lambda>si. item_id si = itemId) (\<lambda>si. si\<lparr>quantity := qty\<rparr>)
        (selectedItems s) = ys @ e\<lparr>quantity := qty\<rparr> # zs"
    by blast
  have "updateSelectedItemQuantity itemId qty s =
      s\<lparr>selectedItems := ys @ e\<lparr>quantity := qty\<rparr> # zs\<rparr>"
    using pos by (simp add: updateSelectedItemQuantity_def found written)
  with xs show "\<exists>ys e zs.
         selectedItems s = ys @ e # zs \<and> item_id e = itemId \<and>
         (\<forall>y\<in>set ys. item_id y \<noteq> itemId) \<and>
         updateSelectedItemQuantity itemId qty s =
           s\<lparr>selectedItems := ys @ e\<lparr>quantity := qty\<rparr> # zs\<rparr>"
    by blast
next
  assume "(\<forall>e\<in>set (selectedItems s). item_id e \<noteq> itemId) \<or> price < 0"
  then show "updateSelectedItemPrice itemId price s = s"
  proof
    assume "\<forall>e\<in>set (selectedItems s). item_id e \<noteq> itemId"
    then show ?thesis
      by (simp add: updateSelectedItemPrice_def find_selected_absent)
  next
    assume "price < 0"
    then show ?thesis
      by (simp add: updateSelectedItemPrice_def split: option.split)
  qed
next
  assume "(\<exists>e\<in>set (selectedItems s). item_id e = itemId) \<and> price \<ge> 0"
  then have present: "\<exists>e\<in>set (selectedItems s). item_id e = itemId" and ok: "price \<ge> 0"
    by blast+
  from write_selected_present[OF present, of "\<lambda>si. si\<lparr>unit_price := price\<rparr>"]
  obtain ys e zs where
    xs: "selectedItems s = ys @ e # zs" "item_id e = itemId"
      "\<forall>y\<in>set ys. item_id y \<noteq> itemId"
    and found: "find (\<lambda>si. item_id si = itemId) (selectedItems s) = Some e"
    and written: "write_found (\<lambda>si. item_id si = itemId) (\<lambda>si. si\<lparr>unit_price := price\<rparr>)
        (selectedItems s) = ys @ e\<lparr>unit_price := price\<rparr> # zs"
    by blast
  have "updateSelectedItemPrice itemId price s =
      s\<lparr>selectedItems := ys @ e\<lparr>unit_price := price\<rparr> # zs\<rparr>"
    using ok by (simp add: updateSelectedItemPrice_def found written)
  with xs show "\<exists>ys e zs.
         selectedItems s = ys @ e # zs \<and> item_id e = itemId \<and>
         (\<forall>y\<in>set ys. item_id y \<noteq> itemId) \<and>
         updateSelectedItemPrice itemId price s =
           s\<lparr>selectedItems := ys @ e\<lparr>unit_price := price\<rparr> # zs\<rparr>"
    by blast
qed

text \<open>
  In the sample store: quantity 0 for item 2 and price -1 for item 2 are ignored, as is any
  update of the absent item 9; quantity 7 and price 0 for item 2 are written, and item 1
  keeps its quantity 2 and its price 5.
\<close>

theorem update_selected_item_guarded_witness:
  "updateSelectedItemQuantity 2 0 sample_store = sample_store
   \<and> updateSelectedItemQuantity 9 7 sample_store = sample_store
   \<and> updateSelectedItemPrice 2 (- 1) sample_store = sample_store
   \<and> updateSelectedItemPrice 9 0 sample_store = sample_store
   \<and> map quantity (selectedItems (updateSelectedItemQuantity 2 7 sample_store)) = [2, 7]
   \<and> map unit_price (selectedItems (updateSelectedItemQuantity 2 7 sample_store)) = [5, 3]
   \<and> map quantity (selectedItems (updateSelectedItemPrice 2 0 sample_store)) = [2, 1]
   \<and> map unit_price (selectedItems (updateSelectedItemPrice 2 0 sample_store)) = [5, 0]"
proof -
  have sel: "selectedItems sample_store =
     [\<lparr>item_id = 1, item = sample_product, quantity = 2, unit_price = 5,
       solo_unit_price = 5, bulk_unit_price = 4\<rparr>,
      \<lparr>item_id = 2, item = second_product, quantity = 1, unit_price = 3,
       solo_unit_price = 3, bulk_unit_price = 0\<rparr>]"
    by (simp add: sample_store_def)
  have present: "\<exists>e\<in>set (selectedItems sample_store). item_id e = 2"
    by (simp add: sel)
  have absent: "\<forall>e\<in>set (selectedItems sample_store). item_id e \<noteq> 9"
    by (simp add: sel)
  have only: "ys = [\<lparr>item_id = 1, item = sample_product, quantity = 2, unit_price = 5,
       solo_unit_price = 5, bulk_unit_price = 4\<rparr>] \<and>
      e = \<lparr>item_id = 2, item = second_product, quantity = 1, unit_price = 3,
       solo_unit_price = 3, bulk_unit_price = 0\<rparr> \<and> zs = []"
    if "selectedItems sample_store = ys @ e # zs" "item_id e = 2" for ys e zs
    using that by (auto simp: sel Cons_eq_append_conv)
  have q0: "updateSelectedItemQuantity 2 0 sample_store = sample_store"
    using update_selected_item_guarded[of sample_store 2 0 0] by simp
  have q9: "updateSelectedItemQuantity 9 7 sample_store = sample_store"
    using update_selected_item_guarded[of sample_store 9 7 0] absent by blast
  have p1: "updateSelectedItemPrice 2 (- 1) sample_store = sample_store"
    using update_selected_item_guarded[of sample_store 2 0 "- 1"] by simp
  have p9: "updateSelectedItemPrice 9 0 sample_store = sample_store"
    using update_selected_item_guarded[of sample_store 9 7 0] absent by blast
  from update_selected_item_guarded[of sample_store 2 7 0] present
  obtain ys e zs where "selectedItems sample_store = ys @ e # zs" "item_id e = 2"
    "updateSelectedItemQuantity 2 7 sample_store =
       sample_store\<lparr>selectedItems := ys @ e\<lparr>quantity := 7\<rparr> # zs\<rparr>"
    by auto
  with only[of ys e zs] have q7:
    "map quantity (selectedItems (updateSelectedItemQuantity 2 7 sample_store)) = [2, 7]"
    "map unit_price (selectedItems (updateSelectedItemQuantity 2 7 sample_store)) = [5, 3]"
    by simp_all
  from update_selected_item_guarded[of sample_store 2 7 0] present
  obtain ys e zs where "selectedItems sample_store = ys @ e # zs" "item_id e = 2"
    "updateSelectedItemPrice 2 0 sample_store =
       sample_store\<lparr>selectedItems := ys @ e\<lparr>unit_price := 0\<rparr> # zs\<rparr>"
    by auto
  with only[of ys e zs] have p0:
    "map quantity (selectedItems (updateSelectedItemPrice 2 0 sample_store)) = [2, 1]"
    "map unit_price (selectedItems (updateSelectedItemPrice 2 0 sample_store)) = [5, 0]"
    by simp_all
  from q0 q9 p1 p9 q7 p0 show ?thesis by simp
qed

text \<open>
  C6. From any store, \<open>resetForm\<close> yields in one step a store whose transaction form is the
  default one (no customer, no warehouse, payment type cash, empty note, no details) and
  whose selection is empty; nothing else changes.
\<close>

theorem resetForm_defaults:
  "customer_id (transactionForm (resetForm s)) = None
   \<and> warehouse_id (transactionForm (resetForm s)) = None
   \<and> payment_type (transactionForm (resetForm s)) = cash
   \<and> note' (transactionForm (resetForm s)) = []
   \<and> details (transactionForm (resetForm s)) = []
   \<and> selectedItems (resetForm s) = []
   \<and> transactionForm (resetForm s) = transactionForm initial_store
   \<and> resetForm s =
       s\<lparr>transactionForm := transactionForm initial_store,
         selectedItems := selectedItems initial_store\<rparr>"
  by (simp add: resetForm_def initial_store_def)

text \<open>
  C7, as the code has it. \<open>totalAmount\<close> is 0 for the empty selection, and with one more
  entry at the end it is the total so far plus the quantity times the unit price of that
  entry, the product and the sum each rounded to binary64. It is the sum over all entries
  of quantity times unit price whenever every product and every running total of that sum
  is a binary64 number, so no addition or multiplication rounds; that is so in particular
  when the quantities and unit prices are integers and the products add up, in magnitude,
  to less than \<open>2 ^ 53\<close>, as for two entries, 2 at 5 and 1 at 3, where it is 13.
\<close>

theorem totalAmount_is_sum_unless_rounded:
  "totalAmount (s\<lparr>selectedItems := []\<rparr>) = Some 0
   \<and> totalAmount (s\<lparr>selectedItems := selectedItems s @ [e]\<rparr>) =
       (case totalAmount s of
          None \<Rightarrow> None
        | Some t \<Rightarrow>
            (case binary64 (quantity e * unit_price e) of
               None \<Rightarrow> None
             | Some p \<Rightarrow> binary64 (t + p)))
   \<and> ((\<forall>e\<in>set (selectedItems s). is_binary64 (quantity e * unit_price e))
        \<and> (\<forall>k\<le>length (selectedItems s).
              is_binary64
                (sum_list (map (\<lambda>e. quantity e * unit_price e) (take k (selectedItems s)))))
       \<longrightarrow> totalAmount s =
             Some (sum_list (map (\<lambda>e. quantity e * unit_price e) (selectedItems s))))
   \<and> ((\<forall>e\<in>set (selectedItems s). quantity e \<in> \<int> \<and> unit_price e \<in> \<int>)
        \<and> sum_list (map (\<lambda>e. \<bar>quantity e * unit_price e\<bar>) (selectedItems s)) < 2 ^ 53
       \<longrightarrow> totalAmount s =
             Some (sum_list (map (\<lambda>e. quantity e * unit_price e) (selectedItems s))))
   \<and> totalAmount
        (s\<lparr>selectedItems :=
             [a\<lparr>quantity := 2, unit_price := 5\<rparr>, b\<lparr>quantity := 1, unit_price := 3\<rparr>]\<rparr>) =
       Some 13"
proof (intro conjI impI)
  show "totalAmount (s\<lparr>selectedItems := []\<rparr>) = Some 0"
    by (simp add: totalAmount_def)
next
  show "totalAmount (s\<lparr>selectedItems := selectedItems s @ [e]\<rparr>) =
       (case totalAmount s of
          None \<Rightarrow> None
        | Some t \<Rightarrow>
            (case binary64 (quantity e * unit_price e) of
               None \<Rightarrow> None
             | Some p \<Rightarrow> binary64 (t + p)))"
    by (simp add: totalAmount_def)
next
  assume exact:
    "(\<forall>e\<in>set (selectedItems s). is_binary64 (quantity e * unit_price e))
     \<and> (\<forall>k\<le>length (selectedItems s).
           is_binary64
             (sum_list (map (\<lambda>e. quantity e * unit_price e) (take k (selectedItems s)))))"
  then show "totalAmount s =
      Some (sum_list (map (\<lambda>e. quantity e * unit_price e) (selectedItems s)))"
    unfolding totalAmount_def
    using total_of_binary64[of "selectedItems s" "\<lambda>e. quantity e * unit_price e" 0]
    by simp
next
  assume ints:
    "(\<forall>e\<in>set (selectedItems s). quantity e \<in> \<int> \<and> unit_price e \<in> \<int>)
     \<and> sum_list (map (\<lambda>e. \<bar>quantity e * unit_price e\<bar>) (selectedItems s)) < 2 ^ 53"
  then have "\<forall>e\<in>set (selectedItems s). quantity e * unit_price e \<in> \<int>"
    by simp
  with ints show "totalAmount s =
      Some (sum_list (map (\<lambda>e. quantity e * unit_price e) (selectedItems s)))"
    unfolding totalAmount_def
    using total_of_integers[of "selectedItems s" "\<lambda>e. quantity e * unit_price e" 0]
    by simp
next
  have ten: "binary64 10 = Some 10" using binary64_of_int[of 10] by simp
  have three: "binary64 3 = Some 3" using binary64_of_int[of 3] by simp
  have thirteen: "binary64 13 = Some 13" using binary64_of_int[of 13] by simp
  show "totalAmount
        (s\<lparr>selectedItems :=
             [a\<lparr>quantity := 2, unit_price := 5\<rparr>, b\<lparr>quantity := 1, unit_price := 3\<rparr>]\<rparr>) =
       Some 13"
    by (simp add: totalAmount_def ten three thirteen)
qed

text \<open>
  The sample store holds 2 at 5 and 1 at 3: the products 10 and 3 and the running totals
  0, 10 and 13 are binary64 numbers, and they are integers; its total is 13.
\<close>

theorem totalAmount_is_sum_unless_rounded_witness:
  "is_binary64 0 \<and> is_binary64 3 \<and> is_binary64 10 \<and> is_binary64 13
   \<and> totalAmount sample_store = Some 13"
proof -
  have sel: "selectedItems sample_store =
     [\<lparr>item_id = 1, item = sample_product, quantity = 2, unit_price = 5,
       solo_unit_price = 5, bulk_unit_price = 4\<rparr>,
      \<lparr>item_id = 2, item = second_product, quantity = 1, unit_price = 3,
       solo_unit_price = 3, bulk_unit_price = 0\<rparr>]"
    by (simp add: sample_store_def)
  have b: "is_binary64 0" "is_binary64 3" "is_binary64 10" "is_binary64 13"
    using binary64_of_int[of 0] binary64_of_int[of 3] binary64_of_int[of 10]
      binary64_of_int[of 13]
    by (simp_all add: is_binary64_def)
  have products: "\<forall>e\<in>set (selectedItems sample_store). is_binary64 (quantity e * unit_price e)"
    by (simp add: sel b)
  have totals: "\<forall>k\<le>length (selectedItems sample_store).
      is_binary64
        (sum_list (map (\<lambda>e. quantity e * unit_price e) (take k (selectedItems sample_store))))"
  proof (intro allI impI)
    fix k assume "k \<le> length (selectedItems sample_store)"
    then have "k = 0 \<or> k = 1 \<or> k = 2" by (auto simp: sel)
    then show "is_binary64
        (sum_list (map (\<lambda>e. quantity e * unit_price e) (take k (selectedItems sample_store))))"
      by (auto simp: sel b)
  qed
  have sum: "sum_list (map (\<lambda>e. quantity e * unit_price e) (selectedItems sample_store)) = 13"
    by (simp add: sel)
  have ints: "\<forall>e\<in>set (selectedItems sample_store). quantity e \<in> \<int> \<and> unit_price e \<in> \<int>"
    by (simp add: sel)
  have bound:
    "sum_list (map (\<lambda>e. \<bar>quantity e * unit_price e\<bar>) (selectedItems sample_store)) < 2 ^ 53"
    by (simp add: sel)
  from totalAmount_is_sum_unless_rounded[of sample_store] products totals
  have "totalAmount sample_store =
      Some (sum_list (map (\<lambda>e. quantity e * unit_price e) (selectedItems sample_store)))"
    by blast
  moreover from totalAmount_is_sum_unless_rounded[of sample_store] ints bound
  have "totalAmount sample_store =
      Some (sum_list (map (\<lambda>e. quantity e * unit_price e) (selectedItems sample_store)))"
    by blast
  ultimately show ?thesis using b sum by simp
qed

text \<open>
  C7, as the specification words it, fails where an operation rounds. Three units at the
  price 0.1: the price is a binary64 number, the sum of quantity times unit price is three
  times the price, a little above 0.3 and not a binary64 number, and \<open>totalAmount\<close> is the
  binary64 number next above it, which JavaScript prints as 0.30000000000000004.
\<close>

theorem totalAmount_three_tenths_rounded:
  "is_binary64 tenth
   \<and> map quantity (selectedItems tenths_store) = [3]
   \<and> map unit_price (selectedItems tenths_store) = [tenth]
   \<and> totalAmount tenths_store = Some (5404319552844596 / 18014398509481984)
   \<and> totalAmount tenths_store \<noteq> Some (3 * tenth)"
proof -
  have sel: "selectedItems tenths_store =
      [\<lparr>item_id = 1, item = sample_product, quantity = 3, unit_price = tenth,
        solo_unit_price = tenth, bulk_unit_price = tenth\<rparr>]"
    by (simp add: tenths_store_def)
  have price: "binary64 tenth = Some tenth"
  proof (rule binary64_on_grid[where m = 3602879701896397 and e = "- 55"])
    show "tenth = of_int 3602879701896397 * 2 powi (- 55)"
      by (simp add: tenth_def)
    show "\<bar>tenth\<bar> < 2 powi 1024" by (simp add: tenth_def)
    have "\<bar>tenth\<bar> < 2 powi (- 55 + 53)" by (simp add: tenth_def)
    from grid_exponent_le[OF this] show "grid_exponent 2045 \<bar>tenth\<bar> \<le> - 55" by simp
  qed
  have product: "binary64 (3 * tenth) = Some (5404319552844596 / 18014398509481984)"
  proof -
    have "2 powi (- 54 + 52) \<le> \<bar>3 * tenth\<bar>" "\<bar>3 * tenth\<bar> < 2 powi (- 54 + 53)"
      by (simp_all add: tenth_def)
    from binary64_in_binade[OF this] show ?thesis
      by (simp add: tenth_def round_half_even_def)
  qed
  have total: "binary64 (0 + 5404319552844596 / 18014398509481984) =
      Some (5404319552844596 / 18014398509481984)"
  proof -
    have "binary64 (5404319552844596 / 18014398509481984) =
        Some (5404319552844596 / 18014398509481984)"
    proof (rule binary64_on_grid[where m = 5404319552844596 and e = "- 54"])
      show "(5404319552844596 / 18014398509481984 :: real) =
          of_int 5404319552844596 * 2 powi (- 54)"
        by simp
      show "\<bar>5404319552844596 / 18014398509481984 :: real\<bar> < 2 powi 1024" by simp
      have "\<bar>5404319552844596 / 18014398509481984 :: real\<bar> < 2 powi (- 54 + 53)" by simp
      from grid_exponent_le[OF this]
      show "grid_exponent 2045 \<bar>5404319552844596 / 18014398509481984 :: real\<bar> \<le> - 54"
        by simp
    qed
    then show ?thesis by simp
  qed
  have amount: "totalAmount tenths_store = Some (5404319552844596 / 18014398509481984)"
    using product total by (simp add: totalAmount_def sel)
  have "(5404319552844596 / 18014398509481984 :: real) \<noteq> 3 * tenth"
    by (simp add: tenth_def)
  with price amount show ?thesis by (simp add: is_binary64_def sel)
qed

text \<open>
  C8. Called without a branch id (none given, or the falsy id 0), \<open>fetchBranchWarehouses\<close>
  leaves \<open>warehouses\<close> empty and issues no request; its trace is the write of \<open>True\<close> to
  \<open>loading\<close>, the warning, and the write of \<open>False\<close> to \<open>loading\<close>, which is the value the
  flag has afterwards.
\<close>

theorem fetchBranchWarehouses_without_branch:
  assumes "\<not> truthy_number branchId"
  shows "(let r = fetchBranchWarehouses branchId reply s in
            warehouses (final r) = []
            \<and> calls (trace r) = []
            \<and> trace r =
                [SetLoading True,
                 ConsoleWarn ''No branch ID provided for fetching warehouses'',
                 SetLoading False]
            \<and> hd (trace r) = SetLoading True
            \<and> last (trace r) = SetLoading False
            \<and> loading (final r) = False
            \<and> outcome r = Inr ())"
  using assms by (simp add: fetchBranchWarehouses_def calls_def Let_def)

theorem fetchBranchWarehouses_without_branch_witness:
  "\<not> truthy_number None
   \<and> (let r = fetchBranchWarehouses None (Rejected (Error ''offline'')) sample_store in
        warehouses (final r) = []
        \<and> calls (trace r) = []
        \<and> trace r =
            [SetLoading True,
             ConsoleWarn ''No branch ID provided for fetching warehouses'',
             SetLoading False]
        \<and> hd (trace r) = SetLoading True
        \<and> last (trace r) = SetLoading False
        \<and> loading (final r) = False
        \<and> outcome r = Inr ())"
proof -
  have h: "\<not> truthy_number None" by simp
  from fetchBranchWarehouses_without_branch[OF h, of "Rejected (Error ''offline'')" sample_store] h
  show ?thesis by blast
qed

text \<open>
  C9. In a sell search with a warehouse id (the code takes the falsy id 0, like a missing
  one, for no warehouse selected) whose reply has status 'success' and whose data is an
  object with a property \<open>items\<close>: when \<open>items\<close> is a keyed map, the result is the list of
  the values of the map, in the order of its keys; when \<open>items\<close> is an array, the result is
  that array. The request went to the items of that warehouse.
\<close>

theorem searchItems_sell_items:
  assumes "transactionType = Some Sell" and "warehouseId = Some w" and "w \<noteq> 0"
    and "status response = ''success''" and "data response = JObj entries"
  shows "(map_of entries ''items'' = Some (JObj props) \<longrightarrow>
            outcome (searchItems searchQuery warehouseId transactionType (Resolved response) s) =
              Inr (JArr (map snd props)))
         \<and> (map_of entries ''items'' = Some (JArr xs) \<longrightarrow>
            outcome (searchItems searchQuery warehouseId transactionType (Resolved response) s) =
              Inr (JArr xs))
         \<and> map url
              (calls (trace (searchItems searchQuery warehouseId transactionType
                               (Resolved response) s))) =
            [specialwarehouseItems w]"
proof (intro conjI impI)
  assume "map_of entries ''items'' = Some (JObj props)"
  with assms show
    "outcome (searchItems searchQuery warehouseId transactionType (Resolved response) s) =
       Inr (JArr (map snd props))"
    by (simp add: searchItems_def sell_warehouse_def Let_def)
next
  assume "map_of entries ''items'' = Some (JArr xs)"
  with assms show
    "outcome (searchItems searchQuery warehouseId transactionType (Resolved response) s) =
       Inr (JArr xs)"
    by (simp add: searchItems_def sell_warehouse_def Let_def)
next
  from assms have "sell_warehouse transactionType warehouseId = Some w"
    by (simp add: sell_warehouse_def)
  then show "map url
      (calls (trace (searchItems searchQuery warehouseId transactionType
                       (Resolved response) s))) =
      [specialwarehouseItems w]"
    by (simp add: searchItems_calls)
qed

theorem searchItems_sell_items_witness:
  "Some Sell = Some Sell \<and> Some (4::real) = Some 4 \<and> (4::real) \<noteq> 0
   \<and> status keyed_items_response = ''success''
   \<and> status listed_items_response = ''success''
   \<and> outcome (searchItems ''pen'' (Some 4) (Some Sell) (Resolved keyed_items_response)
                 sample_store) =
       Inr (JArr [JStr ''pen'', JStr ''ink''])
   \<and> outcome (searchItems ''pen'' (Some 4) (Some Sell) (Resolved listed_items_response)
                 sample_store) =
       Inr (JArr [JStr ''pen'', JStr ''ink''])"
proof -
  have keyed: "status keyed_items_response = ''success''"
    "data keyed_items_response =
       JObj [(''id'', JNum 4),
             (''items'', JObj [(''11'', JStr ''pen''), (''12'', JStr ''ink'')])]"
    by (simp_all add: keyed_items_response_def)
  have listed: "status listed_items_response = ''success''"
    "data listed_items_response =
       JObj [(''id'', JNum 4), (''items'', JArr [JStr ''pen'', JStr ''ink''])]"
    by (simp_all add: listed_items_response_def)
  have w: "(4::real) \<noteq> 0" by simp
  have "outcome (searchItems ''pen'' (Some 4) (Some Sell) (Resolved keyed_items_response)
                 sample_store) =
       Inr (JArr [JStr ''pen'', JStr ''ink''])"
    using searchItems_sell_items[OF refl refl w keyed,
        of "[(''11'', JStr ''pen''), (''12'', JStr ''ink'')]" "''pen''" sample_store "[]"]
    by simp
  moreover have "outcome (searchItems ''pen'' (Some 4) (Some Sell)
                 (Resolved listed_items_response) sample_store) =
       Inr (JArr [JStr ''pen'', JStr ''ink''])"
    using searchItems_sell_items[OF refl refl w listed,
        of "[]" "''pen''" sample_store "[JStr ''pen'', JStr ''ink'']"]
    by simp
  ultimately show ?thesis using keyed(1) listed(1) by simp
qed

text \<open>
  C10. When the request of \<open>createTransaction\<close> completes with a status other than
  'success', the promise resolves to \<^verbatim>\<open>undefined\<close>, nothing is added to \<open>transactions\<close>,
  and the form and the selection are not reset.
\<close>

theorem createTransaction_not_success:
  assumes "status response \<noteq> ''success''"
  shows "(let r = createTransaction transaction transactionType (Resolved response) s in
            outcome r = Inr None
            \<and> transactions (final r) = transactions s
            \<and> transactionForm (final r) = transactionForm s
            \<and> selectedItems (final r) = selectedItems s)"
  using assms by (simp add: createTransaction_def Let_def)

theorem createTransaction_not_success_witness:
  "status failed_response \<noteq> ''success''
   \<and> (let r = createTransaction (JStr ''sale'') CreateSale (Resolved failed_response)
                 sample_store in
        outcome r = Inr None
        \<and> transactions (final r) = transactions sample_store
        \<and> transactionForm (final r) = transactionForm sample_store
        \<and> selectedItems (final r) = selectedItems sample_store)"
proof -
  have h: "status failed_response \<noteq> ''success''"
    by (simp add: failed_response_def)
  from createTransaction_not_success[OF h, of "JStr ''sale''" CreateSale sample_store] h
  show ?thesis by blast
qed

end
